theory Spec2Isabelle
  imports Main "HOL-Library.Sublist"
begin

section \<open>String primitives of the host language\<close>

text \<open>
  Strings are sequences of code units, modelled as \<open>string\<close> (code units below 256).
  Each primitive below is the built-in the source calls, with the same name.
\<close>

text \<open>\<^verbatim>\<open>s.startsWith(p)\<close>: the first \<open>p.length\<close> code units of \<open>s\<close> are \<open>p\<close>.\<close>

definition startsWith :: "string \<Rightarrow> string \<Rightarrow> bool" where
  "startsWith s p = (take (length p) s = p)"

text \<open>\<^verbatim>\<open>s.includes(t)\<close>: \<open>t\<close> occurs at some position of \<open>s\<close>, scanned from the left.\<close>

fun includesStr :: "string \<Rightarrow> string \<Rightarrow> bool" where
  "includesStr [] t = (t = [])"
| "includesStr (c # cs) t = (startsWith (c # cs) t \<or> includesStr cs t)"

text \<open>
  White space as \<^verbatim>\<open>trim()\<close> sees it, restricted to code units below 256: TAB, LF, VT, FF,
  CR, SPACE and NBSP. Line terminators as the regular expression dot sees them: LF and CR.
\<close>

definition isWhiteSpace :: "char \<Rightarrow> bool" where
  "isWhiteSpace c = (c = CHR 0x09 \<or> c = CHR 0x0A \<or> c = CHR 0x0B \<or> c = CHR 0x0C
                     \<or> c = CHR 0x0D \<or> c = CHR 0x20 \<or> c = CHR 0xA0)"

definition isLineTerminator :: "char \<Rightarrow> bool" where
  "isLineTerminator c = (c = CHR 0x0A \<or> c = CHR 0x0D)"

definition trim :: "string \<Rightarrow> string" where
  "trim s = rev (dropWhile isWhiteSpace (rev (dropWhile isWhiteSpace s)))"

text \<open>\<^verbatim>\<open>s.split(sep)\<close> for a one-character separator; the result is never empty.\<close>

fun splitStr :: "string \<Rightarrow> char \<Rightarrow> string list" where
  "splitStr [] sep = [[]]"
| "splitStr (c # cs) sep =
     (if c = sep then [] # splitStr cs sep
      else (case splitStr cs sep of [] \<Rightarrow> [[c]] | p # ps \<Rightarrow> (c # p) # ps))"

text \<open>\<^verbatim>\<open>xs[i]\<close>: reading past the end yields \<^verbatim>\<open>undefined\<close>, here \<open>None\<close>.\<close>

definition atIndex :: "'a list \<Rightarrow> nat \<Rightarrow> 'a option" where
  "atIndex xs i = (if i < length xs then Some (xs ! i) else None)"

text \<open>\<^verbatim>\<open>a ?? b\<close>: the left operand unless it is \<^verbatim>\<open>null\<close> or \<^verbatim>\<open>undefined\<close>.\<close>

definition nullish :: "'a option \<Rightarrow> 'a \<Rightarrow> 'a" where
  "nullish a b = (case a of None \<Rightarrow> b | Some v \<Rightarrow> v)"

text \<open>A value interpolated into a template literal: \<^verbatim>\<open>undefined\<close> prints as that word.\<close>

definition templateString :: "string option \<Rightarrow> string" where
  "templateString v = (case v of None \<Rightarrow> ''undefined'' | Some s \<Rightarrow> s)"

text \<open>
  A line number interpolated into a template literal: its decimal digits (line numbers
  are far below the magnitude at which the host language switches to exponent notation).
\<close>

fun numberString :: "nat \<Rightarrow> string" where
  "numberString n =
     (if n < 10 then [''0123456789'' ! n]
      else numberString (n div 10) @ [''0123456789'' ! (n mod 10)])"

subsection \<open>Property enumeration\<close>

text \<open>
  An object is modelled by its properties in creation order. \<^verbatim>\<open>Object.entries\<close> enumerates
  the keys that are array indices first (canonical decimal numerals below \<open>2^32 - 1\<close>), in
  ascending numeric order, and then the other keys in creation order.
\<close>

definition decimalValue :: "string \<Rightarrow> nat" where
  "decimalValue k = foldl (\<lambda>n c. 10 * n + (of_char c - 48)) 0 k"

definition isArrayIndex :: "string \<Rightarrow> bool" where
  "isArrayIndex k =
     (k \<noteq> [] \<and> list_all (\<lambda>c. c \<in> set ''0123456789'') k
      \<and> (k = ''0'' \<or> take 1 k \<noteq> ''0'') \<and> decimalValue k < 2 ^ 32 - 1)"

definition Object_entries :: "(string \<times> 'a) list \<Rightarrow> (string \<times> 'a) list" where
  "Object_entries props =
     sort_key (\<lambda>kv. decimalValue (fst kv)) (filter (\<lambda>kv. isArrayIndex (fst kv)) props)
       @ filter (\<lambda>kv. \<not> isArrayIndex (fst kv)) props"

subsection \<open>The two regular expressions of the source\<close>

text \<open>
  \<^verbatim>\<open>/^(a1|a2|...)/\<close> replaced by the empty string: the alternatives are tried in the order
  written, at position 0 only, and the first one that matches is removed.
\<close>

fun firstAlternative :: "string list \<Rightarrow> string \<Rightarrow> string option" where
  "firstAlternative [] s = None"
| "firstAlternative (a # as) s = (if startsWith s a then Some a else firstAlternative as s)"

definition replaceLeading :: "string list \<Rightarrow> string \<Rightarrow> string" where
  "replaceLeading alts s =
     (case firstAlternative alts s of None \<Rightarrow> s | Some a \<Rightarrow> drop (length a) s)"

text \<open>
  \<^verbatim>\<open>/\$\{\{.+\}\}/g\<close>. After the opening \<^verbatim>\<open>${{\<close> the greedy \<^verbatim>\<open>.+\<close> takes the longest run of
  characters that are not line terminators and gives characters back one at a time until
  \<^verbatim>\<open>}}\<close> follows; at least one character is kept. \<open>matchExprTail t\<close> is the number of
  code units matched after the opening, when there is a match.
\<close>

definition matchExprTail :: "string \<Rightarrow> nat option" where
  "matchExprTail t =
     (let run = length (takeWhile (\<lambda>c. \<not> isLineTerminator c) t)
      in case filter (\<lambda>k. take 2 (drop k t) = ''}}'') (rev [1 ..< Suc run]) of
           [] \<Rightarrow> None
         | k # _ \<Rightarrow> Some (k + 2))"

text \<open>
  The global replace by the empty string: scan from the left; where the pattern matches,
  drop the match and go on after it; elsewhere keep the character and move one on.
\<close>

fun replaceExpr :: "string \<Rightarrow> string" where
  "replaceExpr [] = []"
| "replaceExpr (c # cs) =
     (if startsWith (c # cs) ''${{'' then
        (case matchExprTail (drop 3 (c # cs)) of
           None \<Rightarrow> c # replaceExpr cs
         | Some n \<Rightarrow> replaceExpr (drop (3 + n) (c # cs)))
      else c # replaceExpr cs)"

section \<open>The position view: \<open>workflow_ast.ts\<close>\<close>

text \<open>
  The syntax tree of the external YAML parser. Every node carries its start offset. A
  mapping entry has a scalar key (kept as the key's text) and a value that is absent for
  an entry written without one.
\<close>

datatype YAMLNode =
    YAMLScalar nat string
  | YamlMap nat "YAMLMapping list"
  | YAMLSequence nat "YAMLNode list"
and YAMLMapping =
    YAMLMapping nat string "YAMLNode option"

fun startPosition :: "YAMLNode \<Rightarrow> nat" where
  "startPosition (YAMLScalar p v) = p"
| "startPosition (YamlMap p ms) = p"
| "startPosition (YAMLSequence p its) = p"

fun mappingStartPosition :: "YAMLMapping \<Rightarrow> nat" where
  "mappingStartPosition (YAMLMapping p k v) = p"

fun mappingKey :: "YAMLMapping \<Rightarrow> string" where
  "mappingKey (YAMLMapping p k v) = k"

fun mappingValue :: "YAMLMapping \<Rightarrow> YAMLNode option" where
  "mappingValue (YAMLMapping p k v) = v"

text \<open>
  The properties \<^verbatim>\<open>mappings\<close> and \<^verbatim>\<open>items\<close> exist on one node kind each; on the others
  the property read yields \<^verbatim>\<open>undefined\<close>.
\<close>

fun mappings :: "YAMLNode \<Rightarrow> YAMLMapping list option" where
  "mappings (YamlMap p ms) = Some ms"
| "mappings (YAMLScalar p v) = None"
| "mappings (YAMLSequence p its) = None"

fun items :: "YAMLNode \<Rightarrow> YAMLNode list option" where
  "items (YAMLSequence p its) = Some its"
| "items (YAMLScalar p v) = None"
| "items (YamlMap p ms) = None"

text \<open>
  Calling a method on \<^verbatim>\<open>undefined\<close> or \<^verbatim>\<open>null\<close> throws; a failing external parser throws
  its own error.
\<close>

datatype error = TypeError | ParseError

text \<open>
  The external source index, reduced to what the code reads from it: the line of
  \<^verbatim>\<open>indexToPosition(offset)\<close>.
\<close>

type_synonym StructuredSource = "nat \<Rightarrow> nat"

record WorkflowAst =
  WorkflowAst_ast :: YAMLNode
  WorkflowAst_src :: StructuredSource

record JobAst =
  JobAst_ast :: YAMLMapping
  JobAst_src :: StructuredSource

record StepAst =
  StepAst_ast :: YAMLNode
  StepAst_src :: StructuredSource

definition jobAsts :: "WorkflowAst \<Rightarrow> error + JobAst list" where
  "jobAsts w =
     (case mappings (WorkflowAst_ast w) of
        None \<Rightarrow> Inl TypeError
      | Some ms \<Rightarrow>
          (case find (\<lambda>it. mappingKey it = ''jobs'') ms of
             None \<Rightarrow> Inl TypeError
           | Some jobsEntry \<Rightarrow>
               (case mappingValue jobsEntry of
                  None \<Rightarrow> Inl TypeError
                | Some jobsMap \<Rightarrow>
                    (case mappings jobsMap of
                       None \<Rightarrow> Inl TypeError
                     | Some jms \<Rightarrow>
                         Inr (map (\<lambda>it. \<lparr>JobAst_ast = it, JobAst_src = WorkflowAst_src w\<rparr>)
                                jms)))))"

definition stepAsts :: "JobAst \<Rightarrow> error + StepAst list option" where
  "stepAsts j =
     (case mappingValue (JobAst_ast j) of
        None \<Rightarrow> Inl TypeError
      | Some jobMap \<Rightarrow>
          (case mappings jobMap of
             None \<Rightarrow> Inl TypeError
           | Some ms \<Rightarrow>
               (case find (\<lambda>it. mappingKey it = ''steps'') ms of
                  None \<Rightarrow> Inr None
                | Some stepsEntry \<Rightarrow>
                    (case mappingValue stepsEntry of
                       None \<Rightarrow> Inl TypeError
                     | Some stepsSeq \<Rightarrow>
                         (case items stepsSeq of
                            None \<Rightarrow> Inl TypeError
                          | Some its \<Rightarrow>
                              Inr (Some (map (\<lambda>it. \<lparr>StepAst_ast = it,
                                                     StepAst_src = JobAst_src j\<rparr>) its)))))))"

definition JobAst_startLine :: "JobAst \<Rightarrow> nat" where
  "JobAst_startLine j = JobAst_src j (mappingStartPosition (JobAst_ast j))"

definition StepAst_startLine :: "StepAst \<Rightarrow> nat" where
  "StepAst_startLine s = StepAst_src s (startPosition (StepAst_ast s))"

section \<open>The value view and the domain model: \<open>workflow_file.ts\<close>\<close>

text \<open>
  The file record of the API client, with the two fields of the raw response that the
  models read, and the decoded text.
\<close>

record FileContentResponse =
  path :: string
  html_url :: "string option"

record FileContent =
  FileContent_raw :: FileContentResponse
  FileContent_content :: string

text \<open>
  A value as the value parser yields it. The parse result is cast to the workflow type
  unchecked, so a key that the model calls a string method on is kept as such a value.
\<close>

datatype YamlValue =
    YNull
  | YBool bool
  | YNumber int
  | YString string
  | YArray "YamlValue list"
  | YObject "(string \<times> YamlValue) list"

record Step =
  Step_uses :: "string option"
  Step_name :: "string option"
  Step_run :: "string option"
  Step_with :: "(string \<times> YamlValue) list option"

record Strategy =
  Strategy_matrix :: "YamlValue option"

text \<open>
  \<open>Job_name\<close> is whatever the file has under the job's \<^verbatim>\<open>name\<close>: absent, a string, or
  another value (\<^verbatim>\<open>name:\<close> without a value is null, \<^verbatim>\<open>name: 2024\<close> a number).
\<close>

record Job =
  Job_name :: "YamlValue option"
  Job_runs_on :: string
  Job_uses :: "string option"
  Job_steps :: "Step list option"
  Job_strategy :: "Strategy option"

text \<open>\<open>Workflow_jobs\<close> is the object under \<^verbatim>\<open>jobs\<close>: its properties in creation order.\<close>

record Workflow =
  Workflow_name :: "string option"
  Workflow_jobs :: "(string \<times> Job) list"

record Uses =
  Uses_action :: string
  Uses_ref :: "string option"

record StepModel =
  StepModel_raw :: Step
  StepModel_name :: string
  StepModel_uses :: "Uses option"
  StepModel_ast :: StepAst
  StepModel_htmlUrl :: "string option"

record JobModel =
  JobModel_id :: string
  JobModel_name :: "YamlValue option"
  JobModel_fileContent :: FileContent
  JobModel_raw :: Job
  JobModel_ast :: JobAst
  JobModel_htmlUrl :: "string option"

record WorkflowModel =
  WorkflowModel_fileContent :: FileContent
  WorkflowModel_raw :: Workflow
  WorkflowModel_ast :: WorkflowAst
  WorkflowModel_htmlUrl :: "string option"

subsection \<open>StepModel\<close>

text \<open>
  The constructor. An empty \<^verbatim>\<open>uses\<close> string is falsy, so it gives no \<open>uses\<close> at all. The
  first element of a split always exists (\<open>splitStr_first\<close> below), so the inner \<open>None\<close>
  branch is never taken.
\<close>

definition usesOf :: "string option \<Rightarrow> Uses option" where
  "usesOf u =
     (case u of
        None \<Rightarrow> None
      | Some s \<Rightarrow>
          (if s = [] then None
           else (case atIndex (splitStr s CHR ''@'') 0 of
                   None \<Rightarrow> None
                 | Some a \<Rightarrow>
                     Some \<lparr>Uses_action = a, Uses_ref = atIndex (splitStr s CHR ''@'') 1\<rparr>)))"

definition StepModel_new :: "Step \<Rightarrow> FileContent \<Rightarrow> StepAst \<Rightarrow> StepModel" where
  "StepModel_new obj fileContent ast =
     (let uses = usesOf (Step_uses obj)
      in \<lparr>StepModel_raw = obj,
          StepModel_name =
            nullish (Step_name obj)
              (nullish (Step_run obj) (nullish (map_option Uses_action uses) [])),
          StepModel_uses = uses,
          StepModel_ast = ast,
          StepModel_htmlUrl = html_url (FileContent_raw fileContent)\<rparr>)"

definition StepModel_startLine :: "StepModel \<Rightarrow> nat" where
  "StepModel_startLine sm = StepAst_startLine (StepModel_ast sm)"

definition StepModel_htmlUrlWithLine :: "StepModel \<Rightarrow> string" where
  "StepModel_htmlUrlWithLine sm =
     templateString (StepModel_htmlUrl sm) @ ''#L'' @ numberString (StepModel_startLine sm)"

definition showable :: "StepModel \<Rightarrow> string" where
  "showable sm =
     nullish (Step_name (StepModel_raw sm))
       (nullish (Step_uses (StepModel_raw sm))
          (nullish (Step_run (StepModel_raw sm)) ''Error: Not showable step''))"

text \<open>
  The scan of \<open>match\<close>: \<open>name\<close> is the raw name without its prefix, \<open>action\<close> the first
  element of its split. \<^verbatim>\<open>stepModel.uses?.action\<close> is \<^verbatim>\<open>undefined\<close> for a step without
  \<open>uses\<close>.
\<close>

fun StepModel_scan :: "StepModel list \<Rightarrow> string \<Rightarrow> string option \<Rightarrow> StepModel option" where
  "StepModel_scan [] name action = None"
| "StepModel_scan (stepModel # rest) name action =
     (if StepModel_name stepModel = name then Some stepModel
      else if map_option Uses_action (StepModel_uses stepModel) = action then Some stepModel
      else StepModel_scan rest name action)"

definition StepModel_match :: "StepModel list option \<Rightarrow> string \<Rightarrow> StepModel option" where
  "StepModel_match stepModels rawName =
     (case stepModels of
        None \<Rightarrow> None
      | Some sms \<Rightarrow>
          (if rawName = ''Set up job'' \<or> rawName = ''Complete job'' then None
           else
             (let name = replaceLeading
                           [''Pre Run '', ''Post Run '', ''Pre '', ''Run '', ''Post ''] rawName;
                  action = atIndex (splitStr name CHR ''@'') 0
              in StepModel_scan sms name action)))"

definition isComposite :: "StepModel \<Rightarrow> bool" where
  "isComposite sm =
     (if Step_uses (StepModel_raw sm) = Some ''./'' then False
      else if (case Step_uses (StepModel_raw sm) of
                 None \<Rightarrow> False
               | Some u \<Rightarrow> startsWith u ''./'') then True
      else False)"

subsection \<open>JobModel\<close>

definition JobModel_new :: "string \<Rightarrow> Job \<Rightarrow> FileContent \<Rightarrow> JobAst \<Rightarrow> JobModel" where
  "JobModel_new jid obj fileContent ast =
     \<lparr>JobModel_id = jid,
      JobModel_name = Job_name obj,
      JobModel_fileContent = fileContent,
      JobModel_raw = obj,
      JobModel_ast = ast,
      JobModel_htmlUrl = html_url (FileContent_raw fileContent)\<rparr>"

definition JobModel_startLine :: "JobModel \<Rightarrow> nat" where
  "JobModel_startLine jm = JobAst_startLine (JobModel_ast jm)"

definition JobModel_htmlUrlWithLine :: "JobModel \<Rightarrow> string" where
  "JobModel_htmlUrlWithLine jm =
     templateString (JobModel_htmlUrl jm) @ ''#L'' @ numberString (JobModel_startLine jm)"

definition JobModel_steps :: "JobModel \<Rightarrow> error + StepModel list" where
  "JobModel_steps jm =
     (case stepAsts (JobModel_ast jm) of
        Inl e \<Rightarrow> Inl e
      | Inr sas \<Rightarrow>
          (case (Job_steps (JobModel_raw jm), sas) of
             (Some steps, Some stepAstList) \<Rightarrow>
               Inr (map (\<lambda>(step, stepAst). StepModel_new step (JobModel_fileContent jm) stepAst)
                      (zip steps stepAstList))
           | _ \<Rightarrow> Inr []))"

definition isMatrix :: "JobModel \<Rightarrow> bool" where
  "isMatrix jm =
     (if Option.bind (Job_strategy (JobModel_raw jm)) Strategy_matrix \<noteq> None then True
      else False)"

definition isReusable :: "JobModel \<Rightarrow> bool" where
  "isReusable jm =
     (if (case Job_uses (JobModel_raw jm) of None \<Rightarrow> False | Some u \<Rightarrow> startsWith u ''./'')
      then True else False)"

text \<open>
  One round of the loop of \<open>match\<close>: \<open>Inr (Some _)\<close> is the \<^verbatim>\<open>return\<close> of this candidate,
  \<open>Inr None\<close> the fall through to the next round (the \<^verbatim>\<open>continue\<close> and the end of the
  body). A strict comparison with the raw name holds for that very string only. The guard
  before the replacement lets every name but \<^verbatim>\<open>undefined\<close> through, and calling
  \<^verbatim>\<open>replace\<close> on a value that is not a string throws.
\<close>

definition JobModel_round :: "JobModel \<Rightarrow> string \<Rightarrow> error + JobModel option" where
  "JobModel_round jobModel rawName =
     (if JobModel_id jobModel = rawName then Inr (Some jobModel)
      else if JobModel_name jobModel = Some (YString rawName) then Inr (Some jobModel)
      else if isMatrix jobModel then
        (if startsWith rawName (JobModel_id jobModel) then Inr (Some jobModel)
         else (case JobModel_name jobModel of
                 None \<Rightarrow> Inr None
               | Some v \<Rightarrow>
                   (case v of
                      YString n \<Rightarrow>
                        (let trimedName = trim (replaceExpr n)
                         in if includesStr rawName trimedName then Inr (Some jobModel)
                            else Inr None)
                    | _ \<Rightarrow> Inl TypeError)))
      else Inr None)"

fun JobModel_scan :: "JobModel list \<Rightarrow> string \<Rightarrow> error + JobModel option" where
  "JobModel_scan [] rawName = Inr None"
| "JobModel_scan (jobModel # rest) rawName =
     (case JobModel_round jobModel rawName of
        Inl e \<Rightarrow> Inl e
      | Inr None \<Rightarrow> JobModel_scan rest rawName
      | Inr (Some found) \<Rightarrow> Inr (Some found))"

definition JobModel_match :: "JobModel list option \<Rightarrow> string \<Rightarrow> error + JobModel option" where
  "JobModel_match jobModels rawName =
     (case jobModels of None \<Rightarrow> Inr None | Some jms \<Rightarrow> JobModel_scan jms rawName)"

subsection \<open>WorkflowModel\<close>

text \<open>
  The constructor takes the two external parsers and the source index builder as
  parameters; the value parser may throw.
\<close>

definition WorkflowAst_new ::
    "(string \<Rightarrow> YAMLNode) \<Rightarrow> (string \<Rightarrow> StructuredSource) \<Rightarrow> string \<Rightarrow> WorkflowAst" where
  "WorkflowAst_new safeLoad structuredSource yaml =
     \<lparr>WorkflowAst_ast = safeLoad yaml, WorkflowAst_src = structuredSource yaml\<rparr>"

definition WorkflowModel_new ::
    "(string \<Rightarrow> error + Workflow) \<Rightarrow> (string \<Rightarrow> YAMLNode) \<Rightarrow> (string \<Rightarrow> StructuredSource)
       \<Rightarrow> FileContent \<Rightarrow> error + WorkflowModel" where
  "WorkflowModel_new parse safeLoad structuredSource fileContent =
     (case parse (FileContent_content fileContent) of
        Inl e \<Rightarrow> Inl e
      | Inr raw \<Rightarrow>
          Inr \<lparr>WorkflowModel_fileContent = fileContent,
               WorkflowModel_raw = raw,
               WorkflowModel_ast =
                 WorkflowAst_new safeLoad structuredSource (FileContent_content fileContent),
               WorkflowModel_htmlUrl = html_url (FileContent_raw fileContent)\<rparr>)"

definition WorkflowModel_name :: "WorkflowModel \<Rightarrow> string" where
  "WorkflowModel_name wm =
     nullish (Workflow_name (WorkflowModel_raw wm))
       (path (FileContent_raw (WorkflowModel_fileContent wm)))"

definition WorkflowModel_jobs :: "WorkflowModel \<Rightarrow> error + JobModel list" where
  "WorkflowModel_jobs wm =
     (case jobAsts (WorkflowModel_ast wm) of
        Inl e \<Rightarrow> Inl e
      | Inr jobAstList \<Rightarrow>
          Inr (map (\<lambda>((jid, job), jobAst).
                      JobModel_new jid job (WorkflowModel_fileContent wm) jobAst)
                 (zip (Object_entries (Workflow_jobs (WorkflowModel_raw wm))) jobAstList)))"

section \<open>The specification's own formulations\<close>

text \<open>
  Follows the specification's words, not the source: strip a single leading prefix if
  present, checking in order \<^verbatim>\<open>"Pre Run "\<close>, \<^verbatim>\<open>"Post Run "\<close>, \<^verbatim>\<open>"Pre "\<close>, \<^verbatim>\<open>"Run "\<close>, \<^verbatim>\<open>"Post "\<close>.
\<close>

definition stripOnePrefix :: "string \<Rightarrow> string" where
  "stripOnePrefix rawName =
     (if prefix ''Pre Run '' rawName then drop (length ''Pre Run '') rawName
      else if prefix ''Post Run '' rawName then drop (length ''Post Run '') rawName
      else if prefix ''Pre '' rawName then drop (length ''Pre '') rawName
      else if prefix ''Run '' rawName then drop (length ''Run '') rawName
      else if prefix ''Post '' rawName then drop (length ''Post '') rawName
      else rawName)"

text \<open>
  Follows the specification's words, not the source: \<open>uses\<close> is split on the last \<open>@\<close> of
  the reference string, and the ref is undefined if no \<open>@\<close> is present.
\<close>

definition usesSplitAtLast :: "string \<Rightarrow> Uses" where
  "usesSplitAtLast s =
     (if CHR ''@'' \<in> set s
      then \<lparr>Uses_action = rev (tl (dropWhile (\<lambda>c. c \<noteq> CHR ''@'') (rev s))),
            Uses_ref = Some (rev (takeWhile (\<lambda>c. c \<noteq> CHR ''@'') (rev s)))\<rparr>
      else \<lparr>Uses_action = s, Uses_ref = None\<rparr>)"

section \<open>A sample workflow\<close>

text \<open>
  A one-line workflow file with the jobs \<open>build\<close> and \<open>test\<close>, its syntax tree with the
  offsets of that text, and job and step models built from it by the constructors. The
  sample jobs take a string or no name; \<open>exampleUntypedJobModel\<close> is a matrix job whose
  \<^verbatim>\<open>name\<close> key holds any parsed value.
\<close>

definition exampleText :: string where
  "exampleText = ''{jobs: {build: {runs-on: ubuntu-latest}, test: {runs-on: ubuntu-latest}}}''"

definition exampleFile :: FileContent where
  "exampleFile =
     \<lparr>FileContent_raw = \<lparr>path = ''.github/workflows/ci.yml'', html_url = None\<rparr>,
      FileContent_content = exampleText\<rparr>"

definition exampleLinkedFile :: FileContent where
  "exampleLinkedFile =
     \<lparr>FileContent_raw =
        \<lparr>path = ''.github/workflows/ci.yml'',
         html_url = Some ''https://github.com/o/r/blob/main/.github/workflows/ci.yml''\<rparr>,
      FileContent_content = exampleText\<rparr>"

definition exampleJob :: "string option \<Rightarrow> bool \<Rightarrow> Job" where
  "exampleJob name matrix =
     \<lparr>Job_name = map_option YString name,
      Job_runs_on = ''ubuntu-latest'',
      Job_uses = None,
      Job_steps = None,
      Job_strategy =
        (if matrix
         then Some \<lparr>Strategy_matrix =
                     Some (YObject
                             [(''os'', YArray [YString ''ubuntu-latest'',
                                               YString ''macos-latest'']),
                              (''node'', YArray [YNumber 18, YNumber 20])])\<rparr>
         else None)\<rparr>"

definition exampleBuildEntry :: YAMLMapping where
  "exampleBuildEntry =
     YAMLMapping 8 ''build''
       (Some (YamlMap 15 [YAMLMapping 16 ''runs-on'' (Some (YAMLScalar 25 ''ubuntu-latest''))]))"

definition exampleTestEntry :: YAMLMapping where
  "exampleTestEntry =
     YAMLMapping 41 ''test''
       (Some (YamlMap 47 [YAMLMapping 48 ''runs-on'' (Some (YAMLScalar 57 ''ubuntu-latest''))]))"

definition exampleTree :: YAMLNode where
  "exampleTree =
     YamlMap 0 [YAMLMapping 1 ''jobs'' (Some (YamlMap 7 [exampleBuildEntry, exampleTestEntry]))]"

definition exampleJobAst :: JobAst where
  "exampleJobAst = \<lparr>JobAst_ast = exampleBuildEntry, JobAst_src = (\<lambda>offset. 1)\<rparr>"

definition exampleStepAst :: StepAst where
  "exampleStepAst = \<lparr>StepAst_ast = YamlMap 15 [], StepAst_src = (\<lambda>offset. 1)\<rparr>"

definition exampleWorkflow :: WorkflowModel where
  "exampleWorkflow =
     \<lparr>WorkflowModel_fileContent = exampleFile,
      WorkflowModel_raw =
        \<lparr>Workflow_name = None,
         Workflow_jobs = [(''build'', exampleJob None False), (''test'', exampleJob None False)]\<rparr>,
      WorkflowModel_ast = \<lparr>WorkflowAst_ast = exampleTree, WorkflowAst_src = (\<lambda>offset. 1)\<rparr>,
      WorkflowModel_htmlUrl = None\<rparr>"

definition exampleJobModel :: "string \<Rightarrow> string option \<Rightarrow> bool \<Rightarrow> JobModel" where
  "exampleJobModel jid name matrix =
     JobModel_new jid (exampleJob name matrix) exampleFile exampleJobAst"

definition exampleUntypedJobModel :: "string \<Rightarrow> YamlValue \<Rightarrow> JobModel" where
  "exampleUntypedJobModel jid name =
     JobModel_new jid ((exampleJob None True)\<lparr>Job_name := Some name\<rparr>) exampleFile
       exampleJobAst"

definition exampleStep :: "string option \<Rightarrow> string option \<Rightarrow> string option \<Rightarrow> StepModel" where
  "exampleStep uses name run =
     StepModel_new \<lparr>Step_uses = uses, Step_name = name, Step_run = run, Step_with = None\<rparr>
       exampleFile exampleStepAst"

section \<open>Properties of the primitives\<close>

lemma startsWith_prefix: "startsWith s p \<longleftrightarrow> prefix p s"
  unfolding startsWith_def prefix_def
  by (metis append_eq_conv_conj append_take_drop_id)

lemma startsWith_refl: "startsWith s s"
  by (simp add: startsWith_def)

lemma includesStr_sublist: "includesStr s t \<longleftrightarrow> sublist t s"
  by (induction s) (auto simp: startsWith_prefix sublist_Cons_right)

lemma splitStr_not_Nil: "splitStr s sep \<noteq> []"
  by (induction s) (auto split: list.splits)

lemma splitStr_first: "atIndex (splitStr s sep) 0 = Some (takeWhile (\<lambda>c. c \<noteq> sep) s)"
  by (induction s) (auto simp: atIndex_def splitStr_not_Nil split: list.splits)

lemma splitStr_second:
  "atIndex (splitStr s sep) (Suc 0) =
     (if sep \<in> set s
      then Some (takeWhile (\<lambda>c. c \<noteq> sep) (tl (dropWhile (\<lambda>c. c \<noteq> sep) s)))
      else None)"
proof (induction s)
  case Nil
  then show ?case by (simp add: atIndex_def)
next
  case (Cons c cs)
  show ?case
  proof (cases "c = sep")
    case True
    have "atIndex ([] # splitStr cs sep) (Suc 0) = atIndex (splitStr cs sep) 0"
      by (simp add: atIndex_def)
    with True show ?thesis by (simp add: splitStr_first)
  next
    case False
    obtain p ps where sp: "splitStr cs sep = p # ps"
      using splitStr_not_Nil by (cases "splitStr cs sep") auto
    have "atIndex ((c # p) # ps) (Suc 0) = atIndex (p # ps) (Suc 0)"
      by (simp add: atIndex_def)
    with False sp Cons show ?thesis by simp
  qed
qed

lemma replaceLeading_prefixes:
  "replaceLeading [''Pre Run '', ''Post Run '', ''Pre '', ''Run '', ''Post ''] rawName
     = stripOnePrefix rawName"
  by (simp add: replaceLeading_def stripOnePrefix_def startsWith_prefix)

text \<open>Keys that are not array indices are enumerated in creation order.\<close>

lemma Object_entries_plain:
  assumes "list_all (\<lambda>k. \<not> isArrayIndex k) (map fst props)"
  shows "Object_entries props = props"
proof -
  have "filter (\<lambda>kv. isArrayIndex (fst kv)) props = []"
    using assms by (induction props) auto
  moreover have "filter (\<lambda>kv. \<not> isArrayIndex (fst kv)) props = props"
    using assms by (induction props) auto
  ultimately show ?thesis by (simp add: Object_entries_def)
qed

lemma Object_entries_numeric_first:
  "Object_entries [(''build'', x), (''2'', y), (''1'', z)]
     = [(''1'', z), (''2'', y), (''build'', x)]"
  by (simp add: Object_entries_def isArrayIndex_def decimalValue_def)

text \<open>An array index starts with a digit, so no key that starts otherwise is one.\<close>

lemma isArrayIndex_first_digit:
  "isArrayIndex k \<Longrightarrow> take 1 k \<in> set (map (\<lambda>c. [c]) ''0123456789'')"
  by (cases k) (auto simp: isArrayIndex_def)

subsection \<open>The decomposition of \<open>uses\<close>\<close>

lemma usesOf_nonempty:
  assumes "s \<noteq> []"
  shows "usesOf (Some s) =
           Some \<lparr>Uses_action = takeWhile (\<lambda>c. c \<noteq> CHR ''@'') s,
                 Uses_ref =
                   (if CHR ''@'' \<in> set s
                    then Some (takeWhile (\<lambda>c. c \<noteq> CHR ''@'')
                                 (tl (dropWhile (\<lambda>c. c \<noteq> CHR ''@'') s)))
                    else None)\<rparr>"
  using assms by (simp add: usesOf_def splitStr_first splitStr_second)

lemma usesSplitAtLast_single:
  assumes "count_list s CHR ''@'' \<le> 1"
  shows "usesSplitAtLast s =
           \<lparr>Uses_action = takeWhile (\<lambda>c. c \<noteq> CHR ''@'') s,
            Uses_ref =
              (if CHR ''@'' \<in> set s
               then Some (takeWhile (\<lambda>c. c \<noteq> CHR ''@'')
                            (tl (dropWhile (\<lambda>c. c \<noteq> CHR ''@'') s)))
               else None)\<rparr>"
proof (cases "CHR ''@'' \<in> set s")
  case False
  then have whole: "takeWhile (\<lambda>c. c \<noteq> CHR ''@'') s = s"
    by (auto simp: takeWhile_eq_all_conv)
  show ?thesis using False by (simp add: usesSplitAtLast_def whole)
next
  case True
  then obtain a b where s: "s = a @ CHR ''@'' # b" and a: "CHR ''@'' \<notin> set a"
    by (auto dest: split_list_first)
  from assms s have b: "CHR ''@'' \<notin> set b"
    by (auto simp: count_list_0_iff [symmetric] simp del: count_list_0_iff)
  have tw: "takeWhile (\<lambda>c. c \<noteq> CHR ''@'') (rev b @ CHR ''@'' # rev a) = rev b"
    using b by (auto simp: takeWhile_tail)
  have dw: "dropWhile (\<lambda>c. c \<noteq> CHR ''@'') (rev b @ CHR ''@'' # rev a) = CHR ''@'' # rev a"
    using b by (auto simp: dropWhile_append)
  have tw2: "takeWhile (\<lambda>c. c \<noteq> CHR ''@'') (a @ CHR ''@'' # b) = a"
    using a by (auto simp: takeWhile_tail)
  have dw2: "dropWhile (\<lambda>c. c \<noteq> CHR ''@'') (a @ CHR ''@'' # b) = CHR ''@'' # b"
    using a by (auto simp: dropWhile_append)
  have tw3: "takeWhile (\<lambda>c. c \<noteq> CHR ''@'') b = b"
    using b by (auto simp: takeWhile_eq_all_conv)
  show ?thesis
    by (simp add: usesSplitAtLast_def s tw dw tw2 dw2 tw3)
qed

subsection \<open>The two scans\<close>

lemma JobModel_round_cases:
  "JobModel_round j r = Inr None \<or> JobModel_round j r = Inr (Some j)
   \<or> JobModel_round j r = Inl TypeError"
  by (auto simp: JobModel_round_def Let_def split: option.splits YamlValue.splits)

lemma JobModel_scan_find:
  "JobModel_scan js r =
     (case find (\<lambda>j. JobModel_round j r \<noteq> Inr None) js of
        None \<Rightarrow> Inr None
      | Some j \<Rightarrow> JobModel_round j r)"
proof (induction js)
  case Nil
  then show ?case by simp
next
  case (Cons j js)
  from JobModel_round_cases [of j r] Cons show ?case
    by (auto split: sum.splits option.splits)
qed

text \<open>
  A round throws only for a matrix candidate whose name is neither undefined nor a
  string, so a scan over candidates without such a name returns.
\<close>

lemma JobModel_round_error:
  assumes "JobModel_round j r = Inl e"
  shows "isMatrix j \<and> JobModel_name j \<noteq> None
         \<and> (\<forall>n. JobModel_name j \<noteq> Some (YString n))"
  using assms
  by (auto simp: JobModel_round_def Let_def split: if_splits option.splits YamlValue.splits)

lemma JobModel_match_returns:
  assumes "\<forall>j\<in>set js. JobModel_name j = None \<or> (\<exists>n. JobModel_name j = Some (YString n))"
  shows "\<exists>found. JobModel_match (Some js) r = Inr found"
proof -
  have "\<exists>found. JobModel_scan js r = Inr found"
    using assms
  proof (induction js)
    case Nil
    then show ?case by simp
  next
    case (Cons j js)
    from Cons.prems have "\<forall>e. JobModel_round j r \<noteq> Inl e"
      using JobModel_round_error [of j r] by auto
    with Cons show ?case
      by (cases "JobModel_round j r") (auto split: option.splits)
  qed
  then show ?thesis by (simp add: JobModel_match_def)
qed

lemma StepModel_scan_find:
  "StepModel_scan sms n a =
     find (\<lambda>sm. StepModel_name sm = n \<or> map_option Uses_action (StepModel_uses sm) = a) sms"
  by (induction sms) auto

subsection \<open>The sample models\<close>

lemma exampleJobModel_isMatrix: "isMatrix (exampleJobModel jid name matrix) = matrix"
  by (simp add: isMatrix_def exampleJobModel_def JobModel_new_def exampleJob_def)

lemma exampleJobModel_name:
  "JobModel_name (exampleJobModel jid name matrix) = map_option YString name"
  by (simp add: exampleJobModel_def JobModel_new_def exampleJob_def)

lemma exampleJobModel_id: "JobModel_id (exampleJobModel jid name matrix) = jid"
  by (simp add: exampleJobModel_def JobModel_new_def)

lemma exampleUntypedJobModel_isMatrix: "isMatrix (exampleUntypedJobModel jid v)"
  by (simp add: isMatrix_def exampleUntypedJobModel_def JobModel_new_def exampleJob_def)

lemma exampleUntypedJobModel_name: "JobModel_name (exampleUntypedJobModel jid v) = Some v"
  by (simp add: exampleUntypedJobModel_def JobModel_new_def)

lemma exampleUntypedJobModel_id: "JobModel_id (exampleUntypedJobModel jid v) = jid"
  by (simp add: exampleUntypedJobModel_def JobModel_new_def)

lemma trim_replaceExpr_Build: "trim (replaceExpr ''Build ${{ matrix.os }}'') = ''Build''"
  by (simp add: trim_def startsWith_def matchExprTail_def isLineTerminator_def
      isWhiteSpace_def)

lemma trim_replaceExpr_Test: "trim (replaceExpr ''Test ${{ matrix.os }}'') = ''Test''"
  by (simp add: trim_def startsWith_def matchExprTail_def isLineTerminator_def
      isWhiteSpace_def)

lemma trim_replaceExpr_two: "trim (replaceExpr ''${{ matrix.os }} test ${{ matrix.node }}'') = []"
  by (simp add: trim_def startsWith_def matchExprTail_def isLineTerminator_def
      isWhiteSpace_def)

section \<open>Job matching\<close>

text \<open>
  C1, as far as the code's design goes. For a candidate with a matrix strategy offered
  alone to \<open>JobModel.match\<close>: if its declared name is undefined, it is returned exactly
  when the raw name starts with its id. If its declared name is a string and the raw
  name does not start with its id, it is returned exactly when the raw name equals the
  declared name or contains the declared name after the pattern replacement and the
  trim. Nothing is said here about a named candidate whose id starts the raw name.
\<close>

theorem JobModel_match_matrix:
  assumes "isMatrix j"
  shows "(JobModel_name j = None \<longrightarrow>
            JobModel_match (Some [j]) r
              = Inr (if startsWith r (JobModel_id j) then Some j else None))
       \<and> (\<forall>n. JobModel_name j = Some (YString n) \<longrightarrow> \<not> startsWith r (JobModel_id j) \<longrightarrow>
            JobModel_match (Some [j]) r
              = Inr (if r = n \<or> includesStr r (trim (replaceExpr n)) then Some j else None))"
  using assms startsWith_refl [of r]
  by (auto simp: JobModel_match_def JobModel_round_def Let_def)

theorem JobModel_match_matrix_witness:
  "isMatrix (exampleJobModel ''build'' None True)
   \<and> JobModel_name (exampleJobModel ''build'' None True) = None
   \<and> startsWith ''build (ubuntu-20.04, x86_64-unknown-linux-gnu)'' ''build''
   \<and> JobModel_match (Some [exampleJobModel ''build'' None True])
        ''build (ubuntu-20.04, x86_64-unknown-linux-gnu)''
      = Inr (Some (exampleJobModel ''build'' None True))
   \<and> isMatrix (exampleJobModel ''build'' (Some ''Build ${{ matrix.os }}'') True)
   \<and> JobModel_name (exampleJobModel ''build'' (Some ''Build ${{ matrix.os }}'') True)
     = Some (YString ''Build ${{ matrix.os }}'')
   \<and> \<not> startsWith ''Build ubuntu-latest'' ''build''
   \<and> trim (replaceExpr ''Build ${{ matrix.os }}'') = ''Build''
   \<and> includesStr ''Build ubuntu-latest'' ''Build''
   \<and> JobModel_match (Some [exampleJobModel ''build'' (Some ''Build ${{ matrix.os }}'') True])
        ''Build ubuntu-latest''
      = Inr (Some (exampleJobModel ''build'' (Some ''Build ${{ matrix.os }}'') True))"
proof -
  have m1: "isMatrix (exampleJobModel ''build'' None True)"
    by (simp add: exampleJobModel_isMatrix)
  have m2: "isMatrix (exampleJobModel ''build'' (Some ''Build ${{ matrix.os }}'') True)"
    by (simp add: exampleJobModel_isMatrix)
  have s1: "startsWith ''build (ubuntu-20.04, x86_64-unknown-linux-gnu)'' ''build''"
    by (simp add: startsWith_def)
  have s2: "\<not> startsWith ''Build ubuntu-latest'' ''build''"
    by (simp add: startsWith_def)
  have c2: "includesStr ''Build ubuntu-latest'' ''Build''"
    by (simp add: startsWith_def)
  show ?thesis
    using JobModel_match_matrix
            [OF m1, of "''build (ubuntu-20.04, x86_64-unknown-linux-gnu)''"]
          JobModel_match_matrix [OF m2, of "''Build ubuntu-latest''"]
          m1 m2 s1 s2 c2
    by (simp add: exampleJobModel_name exampleJobModel_id trim_replaceExpr_Build
        del: replaceExpr.simps)
qed

text \<open>
  C1 as stated fails twice. A matrix job \<open>build\<close> named \<^verbatim>\<open>Test ${{ matrix.os }}\<close> is returned
  for \<^verbatim>\<open>build (ubuntu-latest)\<close>, which does not contain \<open>Test\<close>: the starts-with-id test
  runs before the check that the name is undefined, although the source labels it as the
  case without a name. A matrix job named \<^verbatim>\<open>${{ matrix.os }} test ${{ matrix.node }}\<close> is
  returned for \<open>deploy\<close>: the pattern is greedy, so the text between the two placeholders
  goes with them, the remainder is empty, and every raw name contains it.
\<close>

theorem JobModel_match_matrix_counterexample:
  "isMatrix (exampleJobModel ''build'' (Some ''Test ${{ matrix.os }}'') True)
   \<and> JobModel_name (exampleJobModel ''build'' (Some ''Test ${{ matrix.os }}'') True)
     = Some (YString ''Test ${{ matrix.os }}'')
   \<and> trim (replaceExpr ''Test ${{ matrix.os }}'') = ''Test''
   \<and> \<not> includesStr ''build (ubuntu-latest)'' ''Test''
   \<and> JobModel_match (Some [exampleJobModel ''build'' (Some ''Test ${{ matrix.os }}'') True])
        ''build (ubuntu-latest)''
      = Inr (Some (exampleJobModel ''build'' (Some ''Test ${{ matrix.os }}'') True))
   \<and> isMatrix
        (exampleJobModel ''build'' (Some ''${{ matrix.os }} test ${{ matrix.node }}'') True)
   \<and> trim (replaceExpr ''${{ matrix.os }} test ${{ matrix.node }}'') = []
   \<and> \<not> includesStr ''deploy'' ''test''
   \<and> \<not> startsWith ''deploy'' ''build''
   \<and> JobModel_match
        (Some [exampleJobModel ''build''
                 (Some ''${{ matrix.os }} test ${{ matrix.node }}'') True])
        ''deploy''
      = Inr (Some (exampleJobModel ''build''
                     (Some ''${{ matrix.os }} test ${{ matrix.node }}'') True))"
proof -
  have c1: "\<not> includesStr ''build (ubuntu-latest)'' ''Test''"
    by (simp add: startsWith_def)
  have c2: "\<not> includesStr ''deploy'' ''test''"
    by (simp add: startsWith_def)
  have s1: "startsWith ''build (ubuntu-latest)'' ''build''"
    by (simp add: startsWith_def)
  have s2: "\<not> startsWith ''deploy'' ''build''"
    by (simp add: startsWith_def)
  have e2: "includesStr ''deploy'' []"
    by (simp add: startsWith_def)
  have r1: "JobModel_round (exampleJobModel ''build'' (Some ''Test ${{ matrix.os }}'') True)
              ''build (ubuntu-latest)''
            = Inr (Some (exampleJobModel ''build'' (Some ''Test ${{ matrix.os }}'') True))"
    by (simp add: JobModel_round_def exampleJobModel_isMatrix exampleJobModel_name
        exampleJobModel_id s1)
  have r2: "JobModel_round
              (exampleJobModel ''build'' (Some ''${{ matrix.os }} test ${{ matrix.node }}'') True)
              ''deploy''
            = Inr (Some (exampleJobModel ''build''
                           (Some ''${{ matrix.os }} test ${{ matrix.node }}'') True))"
    by (simp add: JobModel_round_def exampleJobModel_isMatrix exampleJobModel_name
        exampleJobModel_id s2 trim_replaceExpr_two e2 del: replaceExpr.simps)
  have a: "JobModel_match (Some [exampleJobModel ''build'' (Some ''Test ${{ matrix.os }}'') True])
        ''build (ubuntu-latest)''
      = Inr (Some (exampleJobModel ''build'' (Some ''Test ${{ matrix.os }}'') True))"
    by (simp add: JobModel_match_def r1)
  have b: "JobModel_match
        (Some [exampleJobModel ''build''
                 (Some ''${{ matrix.os }} test ${{ matrix.node }}'') True])
        ''deploy''
      = Inr (Some (exampleJobModel ''build''
                     (Some ''${{ matrix.os }} test ${{ matrix.node }}'') True))"
    by (simp add: JobModel_match_def r2)
  have n: "JobModel_name (exampleJobModel ''build'' (Some ''Test ${{ matrix.os }}'') True)
             = Some (YString ''Test ${{ matrix.os }}'')"
    by (simp add: exampleJobModel_name)
  from a b c1 c2 s2 n trim_replaceExpr_Test trim_replaceExpr_two
    exampleJobModel_isMatrix [of "''build''" "Some ''Test ${{ matrix.os }}''" True]
    exampleJobModel_isMatrix
      [of "''build''" "Some ''${{ matrix.os }} test ${{ matrix.node }}''" True]
  show ?thesis by blast
qed

text \<open>
  What the starts-with-id test does to a named candidate: the matrix job \<open>test\<close>, named
  \<^verbatim>\<open>Unit ${{ matrix.os }}\<close>, is returned for the raw name \<open>test-e2e\<close> ahead of the job whose
  id is \<open>test-e2e\<close>. With the test limited to candidates without a name, as the source
  labels it, the first job would be passed over (\<open>Unit\<close> does not occur in the raw name).
\<close>

lemma JobModel_match_named_matrix_prefix:
  "JobModel_match
     (Some [exampleJobModel ''test'' (Some ''Unit ${{ matrix.os }}'') True,
            exampleJobModel ''test-e2e'' None False])
     ''test-e2e''
   = Inr (Some (exampleJobModel ''test'' (Some ''Unit ${{ matrix.os }}'') True))
   \<and> trim (replaceExpr ''Unit ${{ matrix.os }}'') = ''Unit''
   \<and> \<not> includesStr ''test-e2e'' ''Unit''"
proof -
  have t: "trim (replaceExpr ''Unit ${{ matrix.os }}'') = ''Unit''"
    by (simp add: trim_def startsWith_def matchExprTail_def isLineTerminator_def
        isWhiteSpace_def)
  have c: "\<not> includesStr ''test-e2e'' ''Unit''"
    by (simp add: startsWith_def)
  have s: "startsWith ''test-e2e'' ''test''"
    by (simp add: startsWith_def)
  have "JobModel_round (exampleJobModel ''test'' (Some ''Unit ${{ matrix.os }}'') True)
          ''test-e2e''
        = Inr (Some (exampleJobModel ''test'' (Some ''Unit ${{ matrix.os }}'') True))"
    by (simp add: JobModel_round_def exampleJobModel_isMatrix exampleJobModel_name
        exampleJobModel_id s)
  then have "JobModel_match
     (Some [exampleJobModel ''test'' (Some ''Unit ${{ matrix.os }}'') True,
            exampleJobModel ''test-e2e'' None False])
     ''test-e2e''
   = Inr (Some (exampleJobModel ''test'' (Some ''Unit ${{ matrix.os }}'') True))"
    by (simp add: JobModel_match_def)
  with t c show ?thesis by blast
qed

text \<open>
  C9. \<open>JobModel.match\<close> stops at the first candidate, in list order, on which a round
  does not fall through, and its result is that round's: all rules are tried on one
  candidate before the next candidate is looked at. So a matrix job \<open>build\<close> placed
  before a job \<open>build-all\<close> is returned for the raw name \<open>build-all\<close>, although the later
  job's id equals the raw name.
\<close>

theorem JobModel_match_list_order:
  "(\<forall>js r. JobModel_match (Some js) r =
             (case find (\<lambda>j. JobModel_round j r \<noteq> Inr None) js of
                None \<Rightarrow> Inr None
              | Some j \<Rightarrow> JobModel_round j r))
   \<and> (\<forall>js r j. JobModel_match (Some js) r = Inr (Some j)
                 \<longleftrightarrow> find (\<lambda>j. JobModel_round j r \<noteq> Inr None) js = Some j
                     \<and> JobModel_round j r = Inr (Some j))
   \<and> isMatrix (exampleJobModel ''build'' None True)
   \<and> startsWith ''build-all'' (JobModel_id (exampleJobModel ''build'' None True))
   \<and> JobModel_id (exampleJobModel ''build'' None True) \<noteq> ''build-all''
   \<and> JobModel_id (exampleJobModel ''build-all'' None False) = ''build-all''
   \<and> JobModel_match
        (Some [exampleJobModel ''build'' None True, exampleJobModel ''build-all'' None False])
        ''build-all''
      = Inr (Some (exampleJobModel ''build'' None True))"
proof -
  have general:
    "\<forall>js r. JobModel_match (Some js) r =
               (case find (\<lambda>j. JobModel_round j r \<noteq> Inr None) js of
                  None \<Rightarrow> Inr None
                | Some j \<Rightarrow> JobModel_round j r)"
    by (simp add: JobModel_match_def JobModel_scan_find)
  have found:
    "\<forall>js r j. JobModel_match (Some js) r = Inr (Some j)
                 \<longleftrightarrow> find (\<lambda>j. JobModel_round j r \<noteq> Inr None) js = Some j
                     \<and> JobModel_round j r = Inr (Some j)"
  proof (intro allI)
    fix js r j
    show "JobModel_match (Some js) r = Inr (Some j)
            \<longleftrightarrow> find (\<lambda>j. JobModel_round j r \<noteq> Inr None) js = Some j
                \<and> JobModel_round j r = Inr (Some j)"
    proof (cases "find (\<lambda>j. JobModel_round j r \<noteq> Inr None) js")
      case None
      then show ?thesis by (simp add: JobModel_match_def JobModel_scan_find)
    next
      case (Some k)
      with JobModel_round_cases [of k r] show ?thesis
        by (auto simp: JobModel_match_def JobModel_scan_find)
    qed
  qed
  have concrete:
    "isMatrix (exampleJobModel ''build'' None True)
     \<and> startsWith ''build-all'' (JobModel_id (exampleJobModel ''build'' None True))
     \<and> JobModel_id (exampleJobModel ''build'' None True) \<noteq> ''build-all''
     \<and> JobModel_id (exampleJobModel ''build-all'' None False) = ''build-all''
     \<and> JobModel_match
          (Some [exampleJobModel ''build'' None True,
                 exampleJobModel ''build-all'' None False])
          ''build-all''
        = Inr (Some (exampleJobModel ''build'' None True))"
    by (simp add: JobModel_match_def JobModel_round_def exampleJobModel_isMatrix
        exampleJobModel_name exampleJobModel_id startsWith_def)
  from general found concrete show ?thesis by blast
qed

section \<open>Step models\<close>

text \<open>
  C2, as the code has it. For a step whose \<open>uses\<close> is a non-empty string, \<open>uses.action\<close>
  is the text before the first \<open>@\<close> and \<open>uses.ref\<close> is the text between the first \<open>@\<close>
  and the next one (or the end of the string); without an \<open>@\<close> the action is the whole
  string and the ref is undefined. With at most one \<open>@\<close> this is the split at the last
  \<open>@\<close> of the specification.
\<close>

theorem StepModel_uses_first_at:
  assumes "Step_uses obj = Some s" and "s \<noteq> []"
  shows "StepModel_uses (StepModel_new obj fc ast) =
           Some \<lparr>Uses_action = takeWhile (\<lambda>c. c \<noteq> CHR ''@'') s,
                 Uses_ref =
                   (if CHR ''@'' \<in> set s
                    then Some (takeWhile (\<lambda>c. c \<noteq> CHR ''@'')
                                 (tl (dropWhile (\<lambda>c. c \<noteq> CHR ''@'') s)))
                    else None)\<rparr>
         \<and> (count_list s CHR ''@'' \<le> 1 \<longrightarrow>
              StepModel_uses (StepModel_new obj fc ast) = Some (usesSplitAtLast s))"
  using assms
  by (simp add: StepModel_new_def Let_def usesOf_nonempty usesSplitAtLast_single)

theorem StepModel_uses_first_at_witness:
  "StepModel_uses (exampleStep (Some ''actions/checkout@v4'') None None)
     = Some \<lparr>Uses_action = ''actions/checkout'', Uses_ref = Some ''v4''\<rparr>
   \<and> usesSplitAtLast ''actions/checkout@v4''
     = \<lparr>Uses_action = ''actions/checkout'', Uses_ref = Some ''v4''\<rparr>
   \<and> StepModel_uses (exampleStep (Some ''./.github/actions/foo'') None None)
     = Some \<lparr>Uses_action = ''./.github/actions/foo'', Uses_ref = None\<rparr>"
  using StepModel_uses_first_at
          [of "\<lparr>Step_uses = Some ''actions/checkout@v4'', Step_name = None, Step_run = None,
                Step_with = None\<rparr>" "''actions/checkout@v4''" exampleFile exampleStepAst]
        StepModel_uses_first_at
          [of "\<lparr>Step_uses = Some ''./.github/actions/foo'', Step_name = None,
                Step_run = None, Step_with = None\<rparr>" "''./.github/actions/foo''"
              exampleFile exampleStepAst]
  by (simp add: exampleStep_def usesSplitAtLast_def)

text \<open>
  C2 as stated fails on a reference with two \<open>@\<close>: the code splits at the first one and
  keeps the second part only, the specification splits at the last one. It also fails on
  the empty string, for which the code builds no \<open>uses\<close> at all.
\<close>

theorem StepModel_uses_counterexample:
  "StepModel_uses (exampleStep (Some ''octo/deploy@release@v2'') None None)
     = Some \<lparr>Uses_action = ''octo/deploy'', Uses_ref = Some ''release''\<rparr>
   \<and> usesSplitAtLast ''octo/deploy@release@v2''
     = \<lparr>Uses_action = ''octo/deploy@release'', Uses_ref = Some ''v2''\<rparr>
   \<and> StepModel_uses (exampleStep (Some ''octo/deploy@release@v2'') None None)
     \<noteq> Some (usesSplitAtLast ''octo/deploy@release@v2'')
   \<and> StepModel_uses (exampleStep (Some []) None None) = None
   \<and> usesSplitAtLast [] = \<lparr>Uses_action = [], Uses_ref = None\<rparr>"
  by (simp add: exampleStep_def StepModel_new_def usesOf_def usesSplitAtLast_def atIndex_def)

text \<open>
  C6. \<open>isComposite\<close> is true exactly when the raw \<open>uses\<close> string starts with \<open>./\<close> and is
  not \<open>./\<close> itself; the constructor keeps the raw step. So \<open>./\<close> gives false,
  \<open>./.github/actions/foo\<close> gives true, and \<open>actions/checkout@v4\<close> and a step without
  \<open>uses\<close> give false.
\<close>

theorem isComposite_iff:
  "isComposite sm
     = (\<exists>u. Step_uses (StepModel_raw sm) = Some u \<and> prefix ''./'' u \<and> u \<noteq> ''./'')
   \<and> StepModel_raw (StepModel_new obj fc ast) = obj
   \<and> \<not> isComposite (exampleStep (Some ''./'') None None)
   \<and> isComposite (exampleStep (Some ''./.github/actions/foo'') None None)
   \<and> \<not> isComposite (exampleStep (Some ''actions/checkout@v4'') None None)
   \<and> \<not> isComposite (exampleStep None None (Some ''deno lint''))"
proof -
  have general: "isComposite sm
     = (\<exists>u. Step_uses (StepModel_raw sm) = Some u \<and> prefix ''./'' u \<and> u \<noteq> ''./'')"
    by (cases "Step_uses (StepModel_raw sm)") (auto simp: isComposite_def startsWith_prefix)
  have raw: "StepModel_raw (StepModel_new step content stepAst) = step" for step content stepAst
    by (simp add: StepModel_new_def Let_def)
  have self: "\<not> isComposite (exampleStep (Some ''./'') None None)"
    by (simp add: isComposite_def exampleStep_def raw)
  have local: "isComposite (exampleStep (Some ''./.github/actions/foo'') None None)"
    by (simp add: isComposite_def exampleStep_def raw startsWith_def)
  have remote: "\<not> isComposite (exampleStep (Some ''actions/checkout@v4'') None None)"
    by (simp add: isComposite_def exampleStep_def raw startsWith_def)
  have absent: "\<not> isComposite (exampleStep None None (Some ''deno lint''))"
    by (simp add: isComposite_def exampleStep_def raw)
  from general raw [of obj fc ast] self local remote absent show ?thesis by blast
qed

text \<open>An empty \<open>uses\<close> string gives no \<open>uses\<close>, for every step.\<close>

lemma StepModel_uses_empty:
  "Step_uses obj = Some [] \<Longrightarrow> StepModel_uses (StepModel_new obj fc ast) = None"
  by (simp add: StepModel_new_def usesOf_def)

section \<open>Step matching\<close>

text \<open>
  C4. For a raw name that is not one of the two pseudo-step names, \<open>StepModel.match\<close>
  strips at most one leading prefix, tried in the order \<open>Pre Run\<close>, \<open>Post Run\<close>, \<open>Pre\<close>,
  \<open>Run\<close>, \<open>Post\<close>, and returns the first step model in list order whose resolved name is
  the stripped name or whose \<open>uses.action\<close> is the stripped name up to its first \<open>@\<close>;
  it returns nothing when no step model satisfies either condition.
\<close>

theorem StepModel_match_first:
  assumes "rawName \<noteq> ''Set up job''" and "rawName \<noteq> ''Complete job''"
  shows "StepModel_match (Some sms) rawName =
           find (\<lambda>sm. StepModel_name sm = stripOnePrefix rawName
                     \<or> (\<exists>u. StepModel_uses sm = Some u
                            \<and> Uses_action u
                                = takeWhile (\<lambda>c. c \<noteq> CHR ''@'') (stripOnePrefix rawName)))
             sms"
proof -
  have eq: "map_option Uses_action (StepModel_uses sm) = Some a
          \<longleftrightarrow> (\<exists>u. StepModel_uses sm = Some u \<and> Uses_action u = a)" for sm :: StepModel and a
    by (cases "StepModel_uses sm") auto
  show ?thesis
    using assms
    by (simp add: StepModel_match_def replaceLeading_prefixes splitStr_first
        StepModel_scan_find Let_def eq del: map_option_eq_Some)
qed

theorem StepModel_match_first_witness:
  "''Run deno fmt --check'' \<noteq> ''Set up job'' \<and> ''Run deno fmt --check'' \<noteq> ''Complete job''
   \<and> stripOnePrefix ''Run deno fmt --check'' = ''deno fmt --check''
   \<and> StepModel_match
        (Some [exampleStep (Some ''actions/checkout@v4'') None None,
               exampleStep None None (Some ''deno fmt --check'')])
        ''Run deno fmt --check''
      = Some (exampleStep None None (Some ''deno fmt --check''))"
  using StepModel_match_first [of "''Run deno fmt --check''"
      "[exampleStep (Some ''actions/checkout@v4'') None None,
        exampleStep None None (Some ''deno fmt --check'')]"]
  by (simp add: stripOnePrefix_def exampleStep_def StepModel_new_def usesOf_def atIndex_def
      nullish_def)

text \<open>
  C5. \<open>StepModel.match\<close> returns nothing for the raw names \<open>Set up job\<close> and
  \<open>Complete job\<close>, whatever the list of step models is (or when there is none).
\<close>

theorem StepModel_match_pseudo:
  "StepModel_match stepModels ''Set up job'' = None
   \<and> StepModel_match stepModels ''Complete job'' = None"
  by (simp add: StepModel_match_def split: option.splits)

section \<open>A lookup that throws\<close>

text \<open>
  C7 says that both \<open>match\<close> functions return a model or nothing and never throw.
  \<open>StepModel.match\<close> has no step that can throw. \<open>JobModel.match\<close> throws a
  \<open>TypeError\<close> on a matrix job whose \<^verbatim>\<open>name\<close> key holds null or a number, when the raw
  name neither equals nor starts with the job's id: the check before the replacement
  lets pass every name that is not \<^verbatim>\<open>undefined\<close>. The lookup also fails then when a later
  job's id equals the raw name.
\<close>

theorem JobModel_match_throws:
  "JobModel_match (Some [exampleUntypedJobModel ''build'' YNull]) ''deploy'' = Inl TypeError
   \<and> JobModel_match (Some [exampleUntypedJobModel ''build'' (YNumber 2024)]) ''deploy''
     = Inl TypeError
   \<and> JobModel_match
        (Some [exampleUntypedJobModel ''build'' (YNumber 2024),
               exampleJobModel ''deploy'' None False])
        ''deploy''
     = Inl TypeError"
proof -
  have s: "\<not> startsWith ''deploy'' ''build''"
    by (simp add: startsWith_def)
  have "JobModel_round (exampleUntypedJobModel ''build'' YNull) ''deploy'' = Inl TypeError"
    by (simp add: JobModel_round_def exampleUntypedJobModel_isMatrix
        exampleUntypedJobModel_name exampleUntypedJobModel_id s)
  moreover
  have "JobModel_round (exampleUntypedJobModel ''build'' (YNumber 2024)) ''deploy''
          = Inl TypeError"
    by (simp add: JobModel_round_def exampleUntypedJobModel_isMatrix
        exampleUntypedJobModel_name exampleUntypedJobModel_id s)
  ultimately show ?thesis
    by (simp add: JobModel_match_def)
qed

section \<open>Workflow models\<close>

text \<open>
  C8. When the value parser accepts the file, the constructor yields a workflow model
  whose \<open>name\<close> is the declared top-level name if there is one, and the path of the file
  otherwise.
\<close>

theorem WorkflowModel_name_default:
  assumes "parse (FileContent_content fc) = Inr raw"
  shows "\<exists>wm. WorkflowModel_new parse safeLoad structuredSource fc = Inr wm
           \<and> WorkflowModel_raw wm = raw
           \<and> (\<forall>n. Workflow_name raw = Some n \<longrightarrow> WorkflowModel_name wm = n)
           \<and> (Workflow_name raw = None
                \<longrightarrow> WorkflowModel_name wm = path (FileContent_raw fc))"
  using assms by (simp add: WorkflowModel_new_def WorkflowModel_name_def nullish_def)

theorem WorkflowModel_name_default_witness:
  "(\<exists>wm. WorkflowModel_new (\<lambda>text. Inr (WorkflowModel_raw exampleWorkflow))
             (\<lambda>text. exampleTree) (\<lambda>text offset. 1) exampleFile = Inr wm
          \<and> WorkflowModel_name wm = ''.github/workflows/ci.yml'')
   \<and> (\<exists>wm. WorkflowModel_new
             (\<lambda>text. Inr ((WorkflowModel_raw exampleWorkflow)\<lparr>Workflow_name := Some ''CI''\<rparr>))
             (\<lambda>text. exampleTree) (\<lambda>text offset. 1) exampleFile = Inr wm
          \<and> WorkflowModel_name wm = ''CI'')"
  using WorkflowModel_name_default
          [of "\<lambda>text. Inr (WorkflowModel_raw exampleWorkflow)" exampleFile
              "WorkflowModel_raw exampleWorkflow" "\<lambda>text. exampleTree" "\<lambda>text offset. 1"]
        WorkflowModel_name_default
          [of "\<lambda>text. Inr ((WorkflowModel_raw exampleWorkflow)\<lparr>Workflow_name := Some ''CI''\<rparr>)"
              exampleFile
              "(WorkflowModel_raw exampleWorkflow)\<lparr>Workflow_name := Some ''CI''\<rparr>"
              "\<lambda>text. exampleTree" "\<lambda>text offset. 1"]
  by (auto simp: exampleWorkflow_def exampleFile_def)

text \<open>
  C3. Let \<open>declared\<close> be the keys of the \<open>jobs\<close> mapping of a workflow file in declaration
  order, none of them an array index (a job id starts with a letter or an underscore).
  If the value parser created the properties of \<open>jobs\<close> in that order and the syntax
  tree lists the entries of the top-level \<open>jobs\<close> mapping in that order, then \<open>jobs\<close>
  has as many job models as there are declared keys, and the job model at index \<open>i\<close> has
  the \<open>i\<close>-th declared key as its id, the value parsed under that key as its raw job,
  and the syntax-tree entry with that same key as its position node.
\<close>

theorem WorkflowModel_jobs_pairing:
  assumes root: "WorkflowAst_ast (WorkflowModel_ast wm) = YamlMap p rootEntries"
      and jobs: "find (\<lambda>it. mappingKey it = ''jobs'') rootEntries
                   = Some (YAMLMapping q ''jobs'' (Some (YamlMap r jobEntries)))"
      and tree: "map mappingKey jobEntries = declared"
      and parsed: "map fst (Workflow_jobs (WorkflowModel_raw wm)) = declared"
      and valid: "list_all (\<lambda>k. \<not> isArrayIndex k) declared"
  shows "\<exists>js. WorkflowModel_jobs wm = Inr js
           \<and> length js = length declared
           \<and> (\<forall>i<length declared.
                 JobModel_id (js ! i) = declared ! i
                 \<and> JobModel_raw (js ! i) = snd (Workflow_jobs (WorkflowModel_raw wm) ! i)
                 \<and> JobAst_ast (JobModel_ast (js ! i)) = jobEntries ! i
                 \<and> mappingKey (JobAst_ast (JobModel_ast (js ! i))) = declared ! i)"
proof -
  let ?kv = "Workflow_jobs (WorkflowModel_raw wm)"
  let ?asts = "map (\<lambda>it. \<lparr>JobAst_ast = it, JobAst_src = WorkflowAst_src (WorkflowModel_ast wm)\<rparr>)
                 jobEntries"
  let ?js = "map (\<lambda>((jid, job), jobAst).
                    JobModel_new jid job (WorkflowModel_fileContent wm) jobAst)
               (zip ?kv ?asts)"
  have asts: "jobAsts (WorkflowModel_ast wm) = Inr ?asts"
    using root jobs by (simp add: jobAsts_def)
  have "Object_entries ?kv = ?kv"
    using parsed valid by (simp add: Object_entries_plain)
  with asts have res: "WorkflowModel_jobs wm = Inr ?js"
    by (simp add: WorkflowModel_jobs_def)
  have len_kv: "length ?kv = length declared"
    using parsed by (metis length_map)
  have len_tree: "length jobEntries = length declared"
    using tree by (metis length_map)
  from len_kv len_tree have len_js: "length ?js = length declared"
    by simp
  have nth: "JobModel_id (?js ! i) = declared ! i
             \<and> JobModel_raw (?js ! i) = snd (?kv ! i)
             \<and> JobAst_ast (JobModel_ast (?js ! i)) = jobEntries ! i
             \<and> mappingKey (JobAst_ast (JobModel_ast (?js ! i))) = declared ! i"
    if "i < length declared" for i
  proof -
    have k1: "fst (?kv ! i) = declared ! i"
      using that len_kv parsed by (metis nth_map)
    have k2: "mappingKey (jobEntries ! i) = declared ! i"
      using that len_tree tree by (metis nth_map)
    from that len_kv len_tree k1 k2 show ?thesis
      by (simp add: JobModel_new_def case_prod_beta)
  qed
  from res len_js nth show ?thesis by blast
qed

theorem WorkflowModel_jobs_pairing_witness:
  "\<exists>js. WorkflowModel_jobs exampleWorkflow = Inr js
      \<and> length js = 2
      \<and> map JobModel_id js = [''build'', ''test'']
      \<and> map (mappingKey \<circ> JobAst_ast \<circ> JobModel_ast) js = [''build'', ''test'']"
proof -
  have root: "WorkflowAst_ast (WorkflowModel_ast exampleWorkflow)
                = YamlMap 0 [YAMLMapping 1 ''jobs''
                               (Some (YamlMap 7 [exampleBuildEntry, exampleTestEntry]))]"
    by (simp add: exampleWorkflow_def exampleTree_def)
  have jobs: "find (\<lambda>it. mappingKey it = ''jobs'')
                [YAMLMapping 1 ''jobs'' (Some (YamlMap 7 [exampleBuildEntry, exampleTestEntry]))]
              = Some (YAMLMapping 1 ''jobs''
                        (Some (YamlMap 7 [exampleBuildEntry, exampleTestEntry])))"
    by simp
  have tree: "map mappingKey [exampleBuildEntry, exampleTestEntry] = [''build'', ''test'']"
    by (simp add: exampleBuildEntry_def exampleTestEntry_def)
  have parsed: "map fst (Workflow_jobs (WorkflowModel_raw exampleWorkflow))
                  = [''build'', ''test'']"
    by (simp add: exampleWorkflow_def)
  have valid: "list_all (\<lambda>k. \<not> isArrayIndex k) [''build'', ''test'']"
    by (simp add: isArrayIndex_def)
  obtain js where js: "WorkflowModel_jobs exampleWorkflow = Inr js"
      and len: "length js = length [''build'', ''test'']"
      and nth: "\<forall>i<length [''build'', ''test''].
                  JobModel_id (js ! i) = [''build'', ''test''] ! i
                  \<and> JobModel_raw (js ! i)
                      = snd (Workflow_jobs (WorkflowModel_raw exampleWorkflow) ! i)
                  \<and> JobAst_ast (JobModel_ast (js ! i))
                      = [exampleBuildEntry, exampleTestEntry] ! i
                  \<and> mappingKey (JobAst_ast (JobModel_ast (js ! i)))
                      = [''build'', ''test''] ! i"
    using WorkflowModel_jobs_pairing [OF root jobs tree parsed valid] by blast
  from len obtain a b where ab: "js = [a, b]"
    by (cases js; cases "tl js") auto
  from nth have "JobModel_id (js ! 0) = ''build''" "JobModel_id (js ! 1) = ''test''"
      "mappingKey (JobAst_ast (JobModel_ast (js ! 0))) = ''build''"
      "mappingKey (JobAst_ast (JobModel_ast (js ! 1))) = ''test''"
    by (simp_all add: exampleBuildEntry_def exampleTestEntry_def)
  with ab js show ?thesis by simp
qed

section \<open>Line-anchored links\<close>

text \<open>
  C10. For a job model and a step model built from a file, \<open>htmlUrlWithLine\<close> is the
  interpolation of the file's link, the text \<open>#L\<close> and the start line. With a link it is
  the link followed by \<open>#L\<close> and the line; without one the getter still returns a
  string, which starts with \<open>undefined#L\<close>.
\<close>

theorem htmlUrlWithLine_form:
  "JobModel_htmlUrlWithLine (JobModel_new jid job fc jobAst)
     = templateString (html_url (FileContent_raw fc)) @ ''#L''
         @ numberString (JobAst_startLine jobAst)
   \<and> StepModel_htmlUrlWithLine (StepModel_new step fc stepAst)
     = templateString (html_url (FileContent_raw fc)) @ ''#L''
         @ numberString (StepAst_startLine stepAst)
   \<and> (\<forall>u. html_url (FileContent_raw fc) = Some u \<longrightarrow>
          JobModel_htmlUrlWithLine (JobModel_new jid job fc jobAst)
            = u @ ''#L'' @ numberString (JobAst_startLine jobAst)
          \<and> StepModel_htmlUrlWithLine (StepModel_new step fc stepAst)
            = u @ ''#L'' @ numberString (StepAst_startLine stepAst))
   \<and> (html_url (FileContent_raw fc) = None \<longrightarrow>
          startsWith (JobModel_htmlUrlWithLine (JobModel_new jid job fc jobAst)) ''undefined#L''
          \<and> startsWith (StepModel_htmlUrlWithLine (StepModel_new step fc stepAst))
               ''undefined#L'')"
  by (simp add: JobModel_htmlUrlWithLine_def StepModel_htmlUrlWithLine_def JobModel_new_def
      StepModel_new_def JobModel_startLine_def StepModel_startLine_def templateString_def
      startsWith_def Let_def)

theorem htmlUrlWithLine_form_witness:
  "JobModel_htmlUrlWithLine (exampleJobModel ''build'' None False) = ''undefined#L1''
   \<and> StepModel_htmlUrlWithLine (exampleStep None None (Some ''deno lint'')) = ''undefined#L1''
   \<and> JobModel_htmlUrlWithLine
        (JobModel_new ''build'' (exampleJob None False) exampleLinkedFile exampleJobAst)
      = ''https://github.com/o/r/blob/main/.github/workflows/ci.yml#L1''"
  using htmlUrlWithLine_form
          [of "''build''" "exampleJob None False" exampleFile exampleJobAst
              "\<lparr>Step_uses = None, Step_name = None, Step_run = Some ''deno lint'',
                Step_with = None\<rparr>" exampleStepAst]
        htmlUrlWithLine_form
          [of "''build''" "exampleJob None False" exampleLinkedFile exampleJobAst
              "\<lparr>Step_uses = None, Step_name = None, Step_run = Some ''deno lint'',
                Step_with = None\<rparr>" exampleStepAst]
  by (simp add: exampleJobModel_def exampleStep_def exampleFile_def exampleLinkedFile_def
      exampleJobAst_def exampleStepAst_def exampleBuildEntry_def templateString_def
      JobAst_startLine_def StepAst_startLine_def)

end
